theory Spec2Isabelle
  imports Complex_Main
begin

section \<open>Values, tensors and errors\<close>

text \<open>
  The surrogate model of \<^verbatim>\<open>brainspy/processors/simulation/processor.py\<close> wraps a trained
  network and applies amplification, noise and output clipping to its output.
  Tensor elements are modelled as reals, one-dimensional tensors as lists and the
  \<^verbatim>\<open>[D_in, 2]\<close> voltage-range tensor as a list of rows. Rounding of floating-point
  arithmetic is outside the model.
\<close>

type_synonym tensor = "real list"
type_synonym matrix = "real list list"

text \<open>Every exception the modelled code can raise is a value.\<close>

datatype error =
    FileNotFoundError
  | AttributeError
  | KeyError
  | TypeError
  | IndexError
  | RuntimeError
  | ConfigurationError

text \<open>
  The setters take dynamically typed arguments: \<^verbatim>\<open>None\<close>, a string (the marker
  \<^verbatim>\<open>"default"\<close> or a noise tag), a number, a tensor or a dictionary.
\<close>

datatype pyval =
    PNone
  | PStr string
  | PNum real
  | PTensor tensor
  | PDict "(string \<times> pyval) list"

text \<open>
  Element-wise tensor arithmetic with broadcasting on one-dimensional tensors:
  equal sizes combine pointwise, a size-one operand is stretched, anything else is
  a size mismatch, which torch reports as a \<^verbatim>\<open>RuntimeError\<close>.
\<close>

definition broadcast :: "(real \<Rightarrow> real \<Rightarrow> real) \<Rightarrow> tensor \<Rightarrow> tensor \<Rightarrow> error + tensor" where
  "broadcast f xs ys =
     (if length xs = length ys then Inr (map2 f xs ys)
      else if length ys = 1 then Inr (map (\<lambda>x. f x (hd ys)) xs)
      else if length xs = 1 then Inr (map (\<lambda>y. f (hd xs) y) ys)
      else Inl RuntimeError)"

text \<open>\<^verbatim>\<open>t.unsqueeze(dim=1)\<close> turns a tensor of shape \<^verbatim>\<open>[n]\<close> into one of shape \<^verbatim>\<open>[n, 1]\<close>.\<close>

definition unsqueeze1 :: "tensor \<Rightarrow> matrix" where
  "unsqueeze1 xs = map (\<lambda>x. [x]) xs"

text \<open>
  \<^verbatim>\<open>torch.cat((a, b), dim=1)\<close> joins two matrices row by row; the row counts must agree.
\<close>

definition cat1 :: "matrix \<Rightarrow> matrix \<Rightarrow> error + matrix" where
  "cat1 a b = (if length a = length b then Inr (map2 (@) a b) else Inl RuntimeError)"

definition get_tensor_from_list :: "real list \<Rightarrow> tensor" where
  \<comment> \<open>Modelled from the spec: \<^verbatim>\<open>TorchUtils.get_tensor_from_list\<close> lives in
      \<^verbatim>\<open>brainspy.utils.pytorch\<close>, which is not among the sources; the spec describes it as
      the conversion of a value to the tensor representation, which keeps the elements.\<close>
  "get_tensor_from_list xs = xs"

section \<open>The loaded model and the pipeline state\<close>

text \<open>
  \<^verbatim>\<open>model.info\<close> is a nested dictionary. Each path the code reads is a field of the
  record; a field is \<open>None\<close> when a key on its path is missing, where the lookup
  raises \<^verbatim>\<open>KeyError\<close>:
  \<^item> \<open>offset\<close>, \<open>amplitude\<close>: \<^verbatim>\<open>info["data_info"]["input_data"][...]\<close>;
  \<^item> \<open>driver_amplification\<close>: \<^verbatim>\<open>info["data_info"]["processor"]["driver"]["amplification"]\<close>;
  \<^item> \<open>clipping_value\<close>: \<^verbatim>\<open>info["data_info"]["clipping_value"]\<close>.
\<close>

record metadata =
  offset :: "real list option"
  amplitude :: "real list option"
  driver_amplification :: "real list option"
  clipping_value :: "real list option"

text \<open>
  The deserialised network: \<open>net\<close> is the call \<^verbatim>\<open>self.model(x)\<close>, \<open>info\<close> is \<open>None\<close>
  when the object has no \<^verbatim>\<open>info\<close> attribute.
\<close>

record NeuralNetworkModel =
  net :: "tensor \<Rightarrow> error + tensor"
  info :: "metadata option"

text \<open>
  A noise model is stochastic: it reads and advances the state \<open>'g\<close> of the random
  number generator.
\<close>

type_synonym 'g noise_model = "'g \<Rightarrow> tensor \<Rightarrow> tensor \<times> 'g"

text \<open>
  The voltage ranges are the \<^verbatim>\<open>[D_in, 2]\<close> tensor derived from the metadata when the model
  is loaded, or a value that a later configuration call put in its place.
\<close>

datatype ranges = Derived matrix | Configured pyval

text \<open>
  The instance attributes of \<^verbatim>\<open>SurrogateModel\<close>. An attribute that has not been assigned
  yet is \<open>None\<close>; reading it raises \<^verbatim>\<open>AttributeError\<close>. An assigned effect slot holds
  the Python value it was given, so \<open>Some PNone\<close> is an effect switched off.
\<close>

record 'g SurrogateModel =
  model :: NeuralNetworkModel
  voltage_ranges :: "ranges option"
  amplification :: "pyval option"
  output_clipping :: "pyval option"
  noise :: "'g noise_model option option"

section \<open>Construction\<close>

definition init_voltage_ranges :: "'g SurrogateModel \<Rightarrow> error + 'g SurrogateModel" where
  "init_voltage_ranges s =
     (case info (model s) of
        None \<Rightarrow> Inl AttributeError
      | Some md \<Rightarrow>
          (case offset md of
             None \<Rightarrow> Inl KeyError
           | Some off \<Rightarrow>
               (case amplitude md of
                  None \<Rightarrow> Inl KeyError
                | Some amp \<Rightarrow>
                    (case broadcast (-) (get_tensor_from_list off) (get_tensor_from_list amp) of
                       Inl e \<Rightarrow> Inl e
                     | Inr lo \<Rightarrow>
                         (case broadcast (+) (get_tensor_from_list off) (get_tensor_from_list amp) of
                            Inl e \<Rightarrow> Inl e
                          | Inr hi \<Rightarrow>
                              (case cat1 (unsqueeze1 lo) (unsqueeze1 hi) of
                                 Inl e \<Rightarrow> Inl e
                               | Inr vr \<Rightarrow> Inr (s\<lparr>voltage_ranges := Some (Derived vr)\<rparr>)))))))"

text \<open>
  \<^verbatim>\<open>torch.load\<close> reads the file system, here a map from file names to the models stored
  there. Loading assigns \<^verbatim>\<open>self.model\<close> and then the voltage ranges; no other attribute
  is assigned.
\<close>

definition load_base_model ::
  "(string \<rightharpoonup> NeuralNetworkModel) \<Rightarrow> string \<Rightarrow> error + 'g SurrogateModel" where
  "load_base_model fs filename =
     (case fs filename of
        None \<Rightarrow> Inl FileNotFoundError
      | Some m \<Rightarrow>
          init_voltage_ranges
            \<lparr>model = m, voltage_ranges = None, amplification = None,
             output_clipping = None, noise = None\<rparr>)"

definition new_SurrogateModel ::
  "(string \<rightharpoonup> NeuralNetworkModel) \<Rightarrow> string \<Rightarrow> error + 'g SurrogateModel" where
  "new_SurrogateModel fs filename = load_base_model fs filename"

section \<open>Configuration\<close>

text \<open>
  A setter returns the exception it raised, if any, together with the object as the call
  left it: an exception does not undo an assignment made before it.
\<close>

definition set_amplification :: "pyval \<Rightarrow> 'g SurrogateModel \<Rightarrow> error option \<times> 'g SurrogateModel" where
  "set_amplification val s =
     (if val \<noteq> PNone \<and> val = PStr ''default'' then
        (case info (model s) of
           None \<Rightarrow> (Some AttributeError, s)
         | Some md \<Rightarrow>
             (case driver_amplification md of
                None \<Rightarrow> (Some KeyError, s)
              | Some a \<Rightarrow> (None, s\<lparr>amplification := Some (PTensor (get_tensor_from_list a))\<rparr>)))
      else (None, s\<lparr>amplification := Some val\<rparr>))"

definition set_output_clipping :: "pyval \<Rightarrow> 'g SurrogateModel \<Rightarrow> error option \<times> 'g SurrogateModel" where
  "set_output_clipping val s =
     (if val \<noteq> PNone \<and> val = PStr ''default'' then
        (case info (model s) of
           None \<Rightarrow> (Some AttributeError, s)
         | Some md \<Rightarrow>
             (case clipping_value md of
                None \<Rightarrow> (Some KeyError, s)
              | Some c \<Rightarrow> (None, s\<lparr>output_clipping := Some (PTensor (get_tensor_from_list c))\<rparr>)))
      else (None, s\<lparr>output_clipping := Some val\<rparr>))"

text \<open>
  Calls made one after the other: an exception raised by one call ends the sequence.
\<close>

definition then_call ::
  "error option \<times> 's \<Rightarrow> ('s \<Rightarrow> error option \<times> 's) \<Rightarrow> error option \<times> 's" where
  "then_call r k = (case r of (Some e, s) \<Rightarrow> (Some e, s) | (None, s) \<Rightarrow> k s)"

text \<open>
  \<^verbatim>\<open>get_noise\<close> is imported from \<^verbatim>\<open>brainspy.processors.simulation.noise.noise\<close>, which is
  not among the sources, so \<open>set_effects\<close> takes it as the parameter \<open>noise_factory\<close>:
  from the noise argument and the remaining keyword arguments it either raises or
  returns the noise model to install (\<open>None\<close> for no noise).
\<close>

type_synonym 'g noise_factory =
  "pyval \<Rightarrow> (string \<times> pyval) list \<Rightarrow> error + 'g noise_model option"

definition set_effects ::
  "'g noise_factory \<Rightarrow> pyval \<Rightarrow> pyval \<Rightarrow> pyval \<Rightarrow> (string \<times> pyval) list \<Rightarrow>
   'g SurrogateModel \<Rightarrow> error option \<times> 'g SurrogateModel" where
  "set_effects noise_factory amplification_arg output_clipping_arg noise_arg kwargs s =
     (case set_amplification amplification_arg s of
        (Some e, s1) \<Rightarrow> (Some e, s1)
      | (None, s1) \<Rightarrow>
          (case set_output_clipping output_clipping_arg s1 of
             (Some e, s2) \<Rightarrow> (Some e, s2)
           | (None, s2) \<Rightarrow>
               (case noise_factory noise_arg kwargs of
                  Inl e \<Rightarrow> (Some e, s2)
                | Inr n \<Rightarrow> (None, s2\<lparr>noise := Some n\<rparr>))))"

definition get_noise :: "(real \<Rightarrow> 'g noise_model) \<Rightarrow> 'g noise_factory" where
  \<comment> \<open>Modelled from the spec: \<^verbatim>\<open>get_noise\<close> is not among the sources. The spec has a noise
      model selected by a string tag plus keyword parameters, with at least a Gaussian
      model parameterised by its variance and the absence of noise, and an invalid tag a
      fatal configuration error. The Gaussian model itself is the parameter \<open>gaussian\<close>.\<close>
  "get_noise gaussian noise_arg kwargs =
     (case noise_arg of
        PNone \<Rightarrow> Inr None
      | PStr tag \<Rightarrow>
          (if tag = ''gaussian'' then
             (case map_of kwargs ''variance'' of
                Some (PNum v) \<Rightarrow> Inr (Some (gaussian v))
              | _ \<Rightarrow> Inl ConfigurationError)
           else Inl ConfigurationError)
      | _ \<Rightarrow> Inl ConfigurationError)"

section \<open>Forward evaluation\<close>

text \<open>\<^verbatim>\<open>x * self.amplification\<close>: a number scales every element, a tensor is broadcast.\<close>

fun mul :: "tensor \<Rightarrow> pyval \<Rightarrow> error + tensor" where
  "mul x (PNum a) = Inr (map (\<lambda>v. v * a) x)"
| "mul x (PTensor t) = broadcast (*) x t"
| "mul x _ = Inl TypeError"

text \<open>
  \<^verbatim>\<open>self.output_clipping[i]\<close>: an element of a tensor, a character of a string; a
  dictionary has no integer key here and the other values cannot be indexed.
\<close>

fun getitem :: "pyval \<Rightarrow> nat \<Rightarrow> error + pyval" where
  "getitem (PTensor t) i = (if i < length t then Inr (PNum (t ! i)) else Inl IndexError)"
| "getitem (PStr s) i = (if i < length s then Inr (PStr [s ! i]) else Inl IndexError)"
| "getitem (PDict d) i = Inl KeyError"
| "getitem _ i = Inl TypeError"

text \<open>
  \<^verbatim>\<open>torch.clamp(x, min=lo, max=hi)\<close> with numeric bounds; when \<open>lo > hi\<close> every element
  becomes \<open>hi\<close>, which \<open>min (max v lo) hi\<close> gives as well.
\<close>

fun clamp :: "tensor \<Rightarrow> pyval \<Rightarrow> pyval \<Rightarrow> error + tensor" where
  "clamp x (PNum lo) (PNum hi) = Inr (map (\<lambda>v. min (max v lo) hi) x)"
| "clamp x _ _ = Inl TypeError"

definition forward :: "'g SurrogateModel \<Rightarrow> tensor \<Rightarrow> 'g \<Rightarrow> (error + tensor) \<times> 'g" where
  "forward s x g =
     (case net (model s) x of
        Inl e \<Rightarrow> (Inl e, g)
      | Inr y \<Rightarrow>
          (case amplification s of
             None \<Rightarrow> (Inl AttributeError, g)
           | Some a \<Rightarrow>
               (case (if a \<noteq> PNone then mul y a else Inr y) of
                  Inl e \<Rightarrow> (Inl e, g)
                | Inr y1 \<Rightarrow>
                    (case noise s of
                       None \<Rightarrow> (Inl AttributeError, g)
                     | Some n \<Rightarrow>
                         (case (case n of None \<Rightarrow> (y1, g) | Some f \<Rightarrow> f g y1) of
                            (y2, g2) \<Rightarrow>
                              (case output_clipping s of
                                 None \<Rightarrow> (Inl AttributeError, g2)
                               | Some c \<Rightarrow>
                                   (if c \<noteq> PNone then
                                      (case getitem c 0 of
                                         Inl e \<Rightarrow> (Inl e, g2)
                                       | Inr lo \<Rightarrow>
                                           (case getitem c 1 of
                                              Inl e \<Rightarrow> (Inl e, g2)
                                            | Inr hi \<Rightarrow> (clamp y2 lo hi, g2)))
                                    else (Inr y2, g2))))))))"

section \<open>Lifecycle and introspection\<close>

text \<open>
  \<^verbatim>\<open>warnings.warn\<close> is modelled by the list of warnings a call emits, returned next to
  the object or the result. The two warnings of the class:
  \<^item> \<open>ResetNotImplemented\<close>: "Warning: Reset function in Surrogate Model not implemented.";
  \<^item> \<open>ElectrodeNoUnavailable\<close>: "Unable to retrieve electrode number from the info
    dictionary, as it has not been loaded yet into the NeuralNetworkModel. ...".
\<close>

datatype warning = ResetNotImplemented | ElectrodeNoUnavailable

definition reset :: "'g SurrogateModel \<Rightarrow> 'g SurrogateModel \<times> warning list" where
  "reset s = (s, [ResetNotImplemented])"

text \<open>The body of \<^verbatim>\<open>close\<close> is \<^verbatim>\<open>pass\<close>; the message it once printed is commented out.\<close>

definition close :: "'g SurrogateModel \<Rightarrow> 'g SurrogateModel \<times> warning list" where
  "close s = (s, [])"

definition is_hardware :: "'g SurrogateModel \<Rightarrow> bool" where
  "is_hardware s = False"

text \<open>The result is the electrode count, or \<open>None\<close> for Python's \<^verbatim>\<open>None\<close>.\<close>

definition get_electrode_no :: "'g SurrogateModel \<Rightarrow> (error + nat option) \<times> warning list" where
  "get_electrode_no s =
     (case info (model s) of
        Some md \<Rightarrow>
          (case offset md of
             None \<Rightarrow> (Inl KeyError, [])
           | Some off \<Rightarrow> (Inr (Some (length off)), []))
      | None \<Rightarrow> (Inr None, [ElectrodeNoUnavailable]))"

section \<open>Configuration from dictionaries\<close>

text \<open>
  The tests call \<^verbatim>\<open>set_effects_from_dict(info_dict, configs)\<close>, a method the class in
  \<^verbatim>\<open>processor.py\<close> does not have. It is written here from its description in the
  specification, on top of the setters of the source. The per-run info dictionary has the
  layout of the tests: the voltage ranges under \<^verbatim>\<open>activation_electrodes\<close>, amplification
  and output clipping under \<^verbatim>\<open>output_electrodes\<close>.
\<close>

fun dict_get :: "pyval \<Rightarrow> string \<Rightarrow> pyval option" where
  \<comment> \<open>Modelled from the spec: the lookup of a key in a dictionary value, for
      \<open>set_effects_from_dict\<close>, which is not among the sources; \<open>None\<close> when the key is absent
      or the value is no dictionary.\<close>
  "dict_get (PDict d) k = map_of d k"
| "dict_get _ k = None"

definition info_lookup :: "pyval \<Rightarrow> string \<Rightarrow> string \<Rightarrow> pyval option" where
  \<comment> \<open>Modelled from the spec: the value under a matching key of the info dictionary, if
      present; \<open>set_effects_from_dict\<close> is not among the sources.\<close>
  "info_lookup info_dict section key =
     (case dict_get info_dict section of None \<Rightarrow> None | Some sub \<Rightarrow> dict_get sub key)"

definition set_voltage_ranges ::
  "pyval \<Rightarrow> pyval \<Rightarrow> 'g SurrogateModel \<Rightarrow> error option \<times> 'g SurrogateModel" where
  \<comment> \<open>Modelled from the spec: the voltage-range setter is not among the sources. An
      explicit value is used as it is, \<^verbatim>\<open>None\<close> switches the ranges off, and \<^verbatim>\<open>"default"\<close>
      takes the per-run info override if present, else the ranges derived from the metadata.\<close>
  "set_voltage_ranges info_dict val s =
     (if val = PStr ''default'' then
        (case info_lookup info_dict ''activation_electrodes'' ''voltage_ranges'' of
           Some w \<Rightarrow> (None, s\<lparr>voltage_ranges := Some (Configured w)\<rparr>)
         | None \<Rightarrow>
             (case init_voltage_ranges s of
                Inl e \<Rightarrow> (Some e, s)
              | Inr s' \<Rightarrow> (None, s')))
      else (None, s\<lparr>voltage_ranges := Some (Configured val)\<rparr>))"

definition amplification_from_dict ::
  "pyval \<Rightarrow> (string \<times> pyval) list \<Rightarrow> 'g SurrogateModel \<Rightarrow> error option \<times> 'g SurrogateModel" where
  \<comment> \<open>Modelled from the spec: the amplification step of \<open>set_effects_from_dict\<close>, which
      is not among the sources. A key present in the configuration goes through the setter;
      an absent key falls back to the info dictionary, else the slot is left unchanged.\<close>
  "amplification_from_dict info_dict configs s =
     (case map_of configs ''amplification'' of
        Some v \<Rightarrow> set_amplification v s
      | None \<Rightarrow>
          (case info_lookup info_dict ''output_electrodes'' ''amplification'' of
             Some w \<Rightarrow> (None, s\<lparr>amplification := Some w\<rparr>)
           | None \<Rightarrow> (None, s)))"

definition output_clipping_from_dict ::
  "pyval \<Rightarrow> (string \<times> pyval) list \<Rightarrow> 'g SurrogateModel \<Rightarrow> error option \<times> 'g SurrogateModel" where
  \<comment> \<open>Modelled from the spec: the output-clipping step of \<open>set_effects_from_dict\<close>, which
      is not among the sources; same precedence as for amplification.\<close>
  "output_clipping_from_dict info_dict configs s =
     (case map_of configs ''output_clipping'' of
        Some v \<Rightarrow> set_output_clipping v s
      | None \<Rightarrow>
          (case info_lookup info_dict ''output_electrodes'' ''output_clipping'' of
             Some w \<Rightarrow> (None, s\<lparr>output_clipping := Some w\<rparr>)
           | None \<Rightarrow> (None, s)))"

definition voltage_ranges_from_dict ::
  "pyval \<Rightarrow> (string \<times> pyval) list \<Rightarrow> 'g SurrogateModel \<Rightarrow> error option \<times> 'g SurrogateModel" where
  \<comment> \<open>Modelled from the spec: the voltage-range step of \<open>set_effects_from_dict\<close>, which
      is not among the sources; same precedence as for amplification.\<close>
  "voltage_ranges_from_dict info_dict configs s =
     (case map_of configs ''voltage_ranges'' of
        Some v \<Rightarrow> set_voltage_ranges info_dict v s
      | None \<Rightarrow>
          (case info_lookup info_dict ''activation_electrodes'' ''voltage_ranges'' of
             Some w \<Rightarrow> (None, s\<lparr>voltage_ranges := Some (Configured w)\<rparr>)
           | None \<Rightarrow> (None, s)))"

definition select_noise :: "'g noise_factory \<Rightarrow> pyval \<Rightarrow> error + 'g noise_model option" where
  \<comment> \<open>Modelled from the spec: the noise model a configuration value selects, for
      \<open>set_effects_from_dict\<close>, which is not among the sources. The value is absent or
      disabled, or a record \<^verbatim>\<open>{type: string, ...type-specific parameters}\<close>: the tag under
      \<^verbatim>\<open>type\<close> goes to the noise factory with the entries of the record as its keyword
      parameters, and a record without a tag is a malformed value, a configuration error.
      Any other value goes to the factory as it is.\<close>
  "select_noise noise_factory val =
     (case val of
        PDict d \<Rightarrow>
          (case map_of d ''type'' of
             None \<Rightarrow> Inl ConfigurationError
           | Some tag \<Rightarrow> noise_factory tag d)
      | _ \<Rightarrow> noise_factory val [])"

definition set_noise :: "'g noise_factory \<Rightarrow> pyval \<Rightarrow> 'g SurrogateModel \<Rightarrow> error option \<times> 'g SurrogateModel" where
  \<comment> \<open>Modelled from the spec: installing the noise model selected by a configuration
      value, for \<open>set_effects_from_dict\<close>, which is not among the sources.\<close>
  "set_noise noise_factory val s =
     (case select_noise noise_factory val of
        Inl e \<Rightarrow> (Some e, s)
      | Inr n \<Rightarrow> (None, s\<lparr>noise := Some n\<rparr>))"

definition noise_from_dict ::
  "'g noise_factory \<Rightarrow> pyval \<Rightarrow> (string \<times> pyval) list \<Rightarrow> 'g SurrogateModel \<Rightarrow>
   error option \<times> 'g SurrogateModel" where
  \<comment> \<open>Modelled from the spec: the noise step of \<open>set_effects_from_dict\<close>, which is not
      among the sources; same precedence as for amplification.\<close>
  "noise_from_dict noise_factory info_dict configs s =
     (case map_of configs ''noise'' of
        Some v \<Rightarrow> set_noise noise_factory v s
      | None \<Rightarrow>
          (case dict_get info_dict ''noise'' of
             Some w \<Rightarrow> set_noise noise_factory w s
           | None \<Rightarrow> (None, s)))"

definition set_effects_from_dict ::
  "'g noise_factory \<Rightarrow> pyval \<Rightarrow> (string \<times> pyval) list \<Rightarrow> 'g SurrogateModel \<Rightarrow>
   error option \<times> 'g SurrogateModel" where
  \<comment> \<open>Modelled from the spec: \<open>set_effects_from_dict\<close> is not among the sources. The
      recognised keys are handled in the order amplification, output clipping, voltage
      ranges, noise; any other key of the configuration is ignored.\<close>
  "set_effects_from_dict noise_factory info_dict configs s =
     then_call
       (then_call
          (then_call (amplification_from_dict info_dict configs s)
             (output_clipping_from_dict info_dict configs))
          (voltage_ranges_from_dict info_dict configs))
       (noise_from_dict noise_factory info_dict configs)"

section \<open>The pipeline as the specification describes it\<close>

text \<open>
  The specification describes forward evaluation as the raw network evaluation followed
  by three optional stages in a fixed order. Each stage below is written from that
  description, for comparison with \<open>forward\<close>, which follows the source. A computation
  that has raised skips what follows it.
\<close>

definition and_then ::
  "(error + 'a) \<times> 'g \<Rightarrow> ('a \<Rightarrow> 'g \<Rightarrow> (error + 'b) \<times> 'g) \<Rightarrow> (error + 'b) \<times> 'g" where
  "and_then r k = (case r of (Inl e, g) \<Rightarrow> (Inl e, g) | (Inr y, g) \<Rightarrow> k y g)"

definition spec_skip :: "tensor \<Rightarrow> 'g \<Rightarrow> (error + tensor) \<times> 'g" where
  "spec_skip y g = (Inr y, g)"

text \<open>Step 2: if amplification is enabled, \<^verbatim>\<open>y = y * amplification\<close>.\<close>

definition spec_amplify :: "pyval \<Rightarrow> tensor \<Rightarrow> 'g \<Rightarrow> (error + tensor) \<times> 'g" where
  "spec_amplify a y g = (if a = PNone then spec_skip y g else (mul y a, g))"

text \<open>Step 3: if noise is enabled, \<^verbatim>\<open>y = noise(y)\<close>.\<close>

definition spec_noise :: "'g noise_model option \<Rightarrow> tensor \<Rightarrow> 'g \<Rightarrow> (error + tensor) \<times> 'g" where
  "spec_noise n y g =
     (case n of None \<Rightarrow> spec_skip y g | Some f \<Rightarrow> (case f g y of (y', g') \<Rightarrow> (Inr y', g')))"

text \<open>Step 4: if output clipping is enabled, \<^verbatim>\<open>y = clamp(y, low, high)\<close>.\<close>

definition spec_clip :: "pyval \<Rightarrow> tensor \<Rightarrow> 'g \<Rightarrow> (error + tensor) \<times> 'g" where
  "spec_clip c y g =
     (if c = PNone then spec_skip y g
      else (case getitem c 0 of
              Inl e \<Rightarrow> (Inl e, g)
            | Inr lo \<Rightarrow> (case getitem c 1 of Inl e \<Rightarrow> (Inl e, g) | Inr hi \<Rightarrow> (clamp y lo hi, g))))"

section \<open>Example objects\<close>

text \<open>
  A model file with seven input electrodes whose network sums its inputs, a deterministic
  stand-in for a noise model that counts its invocations in the generator state, and the
  pipelines built from them.
\<close>

definition example_metadata :: metadata where
  "example_metadata =
     \<lparr>offset = Some [0, 1, 2, 3, 4, 5, 6], amplitude = Some [1, 1, 1, 1, 2, 2, 2],
      driver_amplification = Some [2], clipping_value = Some [1, 2]\<rparr>"

definition example_model :: NeuralNetworkModel where
  "example_model = \<lparr>net = (\<lambda>x. Inr [sum_list x]), info = Some example_metadata\<rparr>"

definition example_fs :: "string \<rightharpoonup> NeuralNetworkModel" where
  "example_fs = [''model.pt'' \<mapsto> example_model]"

definition example_noise :: "nat noise_model" where
  "example_noise g y = (map (\<lambda>v. v + real g) y, Suc g)"

definition example_gaussian :: "real \<Rightarrow> nat noise_model" where
  "example_gaussian variance g y = (map (\<lambda>v. v + variance * real g) y, Suc g)"

definition example_loaded :: "nat SurrogateModel" where
  "example_loaded =
     \<lparr>model = example_model,
      voltage_ranges = Some (Derived [[-1, 1], [0, 2], [1, 3], [2, 4], [2, 6], [3, 7], [4, 8]]),
      amplification = None, output_clipping = None, noise = None\<rparr>"

definition example_configured :: "nat SurrogateModel" where
  "example_configured =
     example_loaded\<lparr>amplification := Some (PNum 2), noise := Some None,
       output_clipping := Some (PTensor [1, 2])\<rparr>"

text \<open>
  The loaded pipeline with amplification and clipping switched off and noise on, with
  every effect switched off, and an object whose model carries no metadata.
\<close>

definition example_noisy :: "nat SurrogateModel" where
  "example_noisy =
     example_loaded\<lparr>amplification := Some PNone, noise := Some (Some example_noise),
       output_clipping := Some PNone\<rparr>"

definition example_disabled :: "nat SurrogateModel" where
  "example_disabled =
     example_loaded\<lparr>amplification := Some PNone, noise := Some None,
       output_clipping := Some PNone\<rparr>"

definition example_bare :: "nat SurrogateModel" where
  "example_bare =
     \<lparr>model = \<lparr>net = (\<lambda>x. Inr [sum_list x]), info = None\<rparr>, voltage_ranges = None,
      amplification = None, output_clipping = None, noise = None\<rparr>"

text \<open>The info dictionary of the tests.\<close>

definition example_info_dict :: pyval where
  "example_info_dict =
     PDict [(''electrode_no'', PNum 8),
            (''activation_electrodes'',
               PDict [(''electrode_no'', PNum 7), (''voltage_ranges'', PTensor [1, 2])]),
            (''output_electrodes'',
               PDict [(''electrode_no'', PNum 1), (''amplification'', PNum 2),
                      (''output_clipping'', PTensor [1, 2])])]"

text \<open>An info dictionary that only carries a noise record.\<close>

definition example_info_noise :: pyval where
  "example_info_noise =
     PDict [(''noise'', PDict [(''type'', PStr ''gaussian''), (''variance'', PNum 1)])]"

section \<open>Voltage ranges\<close>

lemma broadcast_same_length:
  "length xs = length ys \<Longrightarrow> broadcast f xs ys = Inr (map2 f xs ys)"
  by (simp add: broadcast_def)

lemma init_voltage_ranges_rows:
  assumes "info (model s) = Some md" "offset md = Some off" "amplitude md = Some amp"
    and "length off = length amp"
  shows "init_voltage_ranges s =
           Inr (s\<lparr>voltage_ranges := Some (Derived (map2 (\<lambda>u v. [u - v, u + v]) off amp))\<rparr>)"
proof -
  have "cat1 (unsqueeze1 (map2 (-) off amp)) (unsqueeze1 (map2 (+) off amp)) =
          Inr (map2 (\<lambda>u v. [u - v, u + v]) off amp)"
    using assms(4)
    by (induction off amp rule: list_induct2) (simp_all add: cat1_def unsqueeze1_def)
  then show ?thesis
    using assms
    by (simp add: init_voltage_ranges_def get_tensor_from_list_def broadcast_same_length)
qed

text \<open>
  C2. Loading a model whose metadata holds offsets \<open>off\<close> and amplitudes \<open>amp\<close>, both
  of length \<open>D_in\<close>, succeeds and leaves a voltage-range tensor with \<open>D_in\<close> rows of
  two entries each, row \<open>i\<close> being \<open>[off\<^sub>i - amp\<^sub>i, off\<^sub>i + amp\<^sub>i]\<close>.
\<close>

theorem voltage_ranges_rows:
  assumes "fs filename = Some m" "info m = Some md"
    and "offset md = Some off" "amplitude md = Some amp"
    and "length off = D_in" "length amp = D_in"
  shows "\<exists>s vr. new_SurrogateModel fs filename = Inr (s :: 'g SurrogateModel)
           \<and> voltage_ranges s = Some (Derived vr)
           \<and> length vr = D_in
           \<and> (\<forall>i < D_in. length (vr ! i) = 2 \<and> vr ! i = [off ! i - amp ! i, off ! i + amp ! i])"
proof -
  let ?s0 = "\<lparr>model = m, voltage_ranges = None, amplification = None,
              output_clipping = None, noise = None\<rparr> :: 'g SurrogateModel"
  let ?vr = "map2 (\<lambda>u v. [u - v, u + v]) off amp"
  have len: "length off = length amp" using assms(5,6) by simp
  have "init_voltage_ranges ?s0 = Inr (?s0\<lparr>voltage_ranges := Some (Derived ?vr)\<rparr>)"
    using assms(2,3,4) len by (intro init_voltage_ranges_rows) simp_all
  then have "new_SurrogateModel fs filename = Inr (?s0\<lparr>voltage_ranges := Some (Derived ?vr)\<rparr>)"
    using assms(1) by (simp add: new_SurrogateModel_def load_base_model_def)
  moreover have "length ?vr = D_in" using assms(5,6) by simp
  moreover have "\<forall>i < D_in. length (?vr ! i) = 2 \<and> ?vr ! i = [off ! i - amp ! i, off ! i + amp ! i]"
    using assms(5,6) by simp
  ultimately show ?thesis by simp
qed

theorem voltage_ranges_rows_witness:
  "\<exists>s vr. new_SurrogateModel example_fs ''model.pt'' = Inr (s :: nat SurrogateModel)
           \<and> voltage_ranges s = Some (Derived vr)
           \<and> length vr = 7
           \<and> (\<forall>i < 7. length (vr ! i) = 2 \<and> vr ! i = 
               [[0, 1, 2, 3, 4, 5, 6] ! i - [1, 1, 1, 1, 2, 2, 2] ! i, [0, 1, 2, 3, 4, 5, 6] ! i + [1, 1, 1, 1, 2, 2, 2] ! i])"
  using voltage_ranges_rows [of example_fs "''model.pt''" example_model example_metadata
      "[0, 1, 2, 3, 4, 5, 6]" "[1, 1, 1, 1, 2, 2, 2]" 7]
  by (simp add: example_fs_def example_model_def example_metadata_def)

section \<open>Order of the effects\<close>

lemma forward_stages:
  assumes "amplification s = Some a" "noise s = Some n" "output_clipping s = Some c"
  shows "forward s x g =
           and_then (and_then (and_then (net (model s) x, g) (spec_amplify a)) (spec_noise n))
             (spec_clip c)"
  using assms
  by (simp add: forward_def and_then_def spec_amplify_def spec_noise_def
      spec_clip_def spec_skip_def split: sum.splits option.splits prod.splits)

text \<open>
  C1. With all three effect slots assigned, \<open>forward\<close> is the raw model output passed
  through amplification, then noise, then clipping, in that order. In particular, with
  amplification 2, no noise, clipping bounds \<open>[1, 2]\<close> and raw output \<open>3\<close> the result
  is \<open>clamp (3 * 2) = 2\<close> and not \<open>clamp 3 * 2 = 4\<close>.
\<close>

theorem forward_effect_order:
  assumes "amplification s = Some a" "noise s = Some n" "output_clipping s = Some c"
  shows "forward s x g =
           and_then (and_then (and_then (net (model s) x, g) (spec_amplify a)) (spec_noise n))
             (spec_clip c)
         \<and> (a = PNum 2 \<and> n = None \<and> c = PTensor [1, 2] \<and> net (model s) x = Inr [3] \<longrightarrow>
              forward s x g = (Inr [2], g)
              \<and> fst (forward s x g) \<noteq>
                  (case clamp [3] (PNum 1) (PNum 2) of Inl e \<Rightarrow> Inl e | Inr z \<Rightarrow> mul z (PNum 2)))"
proof -
  have stages: "forward s x g =
      and_then (and_then (and_then (net (model s) x, g) (spec_amplify a)) (spec_noise n))
        (spec_clip c)"
    using assms by (rule forward_stages)
  have "forward s x g = (Inr [2], g)"
    if "a = PNum 2" "n = None" "c = PTensor [1, 2]" "net (model s) x = Inr [3]"
    using that
    by (simp add: stages and_then_def spec_amplify_def spec_noise_def
        spec_clip_def spec_skip_def)
  then show ?thesis
    using stages by auto
qed

theorem forward_effect_order_witness:
  "forward example_configured [1, 2] 5 = (Inr [2], 5)
   \<and> fst (forward example_configured [1, 2] 5) \<noteq> Inr [4]"
  using forward_effect_order [of example_configured "PNum 2" None "PTensor [1, 2]" "[1, 2]" 5]
  by (simp add: example_configured_def example_loaded_def example_model_def and_then_def
      spec_amplify_def spec_noise_def spec_clip_def spec_skip_def)

section \<open>The pipeline right after construction\<close>

lemma init_voltage_ranges_slots:
  "init_voltage_ranges s = Inr s' \<Longrightarrow>
   model s' = model s \<and> amplification s' = amplification s
   \<and> output_clipping s' = output_clipping s \<and> noise s' = noise s"
  by (auto simp add: init_voltage_ranges_def split: option.splits sum.splits)

lemma new_SurrogateModel_slots:
  assumes "new_SurrogateModel fs filename = Inr s"
  shows "amplification s = None \<and> output_clipping s = None \<and> noise s = None"
proof -
  obtain m where "fs filename = Some m"
    and "init_voltage_ranges \<lparr>model = m, voltage_ranges = None, amplification = None,
             output_clipping = None, noise = None\<rparr> = Inr s"
    using assms by (auto simp add: new_SurrogateModel_def load_base_model_def split: option.splits)
  from init_voltage_ranges_slots [OF this(2)] show ?thesis by simp
qed

lemma set_effects_all_None:
  assumes "noise_factory PNone kwargs = Inr None"
  shows "set_effects noise_factory PNone PNone PNone kwargs s =
           (None, s\<lparr>amplification := Some PNone, output_clipping := Some PNone, noise := Some None\<rparr>)"
  using assms by (simp add: set_effects_def set_amplification_def set_output_clipping_def)

text \<open>
  C3, as stated, fails: construction assigns the model and the voltage ranges only, so
  in the freshly built example pipeline the amplification slot is unassigned and
  \<open>forward\<close> raises \<^verbatim>\<open>AttributeError\<close> instead of returning the raw output \<open>[28]\<close>.
\<close>

theorem forward_unconfigured_counterexample:
  "new_SurrogateModel example_fs ''model.pt'' = Inr example_loaded
   \<and> amplification example_loaded = None
   \<and> net (model example_loaded) [1, 2, 3, 4, 5, 6, 7] = Inr [28]
   \<and> forward example_loaded [1, 2, 3, 4, 5, 6, 7] 0 = (Inl AttributeError, 0)"
  by (simp add: new_SurrogateModel_def load_base_model_def example_fs_def example_model_def
      example_metadata_def init_voltage_ranges_def broadcast_def get_tensor_from_list_def
      cat1_def unsqueeze1_def example_loaded_def forward_def)

text \<open>
  C3, amended. Right after construction no effect slot is assigned and \<open>forward\<close> raises
  (\<^verbatim>\<open>AttributeError\<close> once the network has produced its output). After one call of
  \<open>set_effects\<close> with every effect argument \<^verbatim>\<open>None\<close>, for which the noise factory returns no
  noise, all three slots are switched off and \<open>forward\<close> returns exactly the raw model
  output.
\<close>

theorem forward_after_construction:
  assumes "new_SurrogateModel fs filename = Inr s"
  shows "amplification s = None \<and> output_clipping s = None \<and> noise s = None
         \<and> (\<exists>e. forward s x g = (Inl e, g))
         \<and> (net (model s) x = Inr y \<longrightarrow> forward s x g = (Inl AttributeError, g))
         \<and> (noise_factory PNone kwargs = Inr None \<longrightarrow>
              fst (set_effects noise_factory PNone PNone PNone kwargs s) = None
              \<and> amplification (snd (set_effects noise_factory PNone PNone PNone kwargs s)) = Some PNone
              \<and> output_clipping (snd (set_effects noise_factory PNone PNone PNone kwargs s)) = Some PNone
              \<and> noise (snd (set_effects noise_factory PNone PNone PNone kwargs s)) = Some None
              \<and> forward (snd (set_effects noise_factory PNone PNone PNone kwargs s)) x g
                  = (net (model s) x, g))"
proof -
  have slots: "amplification s = None \<and> output_clipping s = None \<and> noise s = None"
    using assms by (rule new_SurrogateModel_slots)
  have raises: "\<exists>e. forward s x g = (Inl e, g)"
    using slots by (simp add: forward_def split: sum.splits)
  have attr: "forward s x g = (Inl AttributeError, g)" if "net (model s) x = Inr y"
    using slots that by (simp add: forward_def)
  have "forward (s\<lparr>amplification := Some PNone, output_clipping := Some PNone, noise := Some None\<rparr>) x g
          = (net (model s) x, g)"
    by (simp add: forward_def split: sum.splits)
  then show ?thesis
    using slots raises attr by (simp add: set_effects_all_None)
qed

theorem forward_after_construction_witness:
  "amplification example_loaded = None
   \<and> forward example_loaded [1, 2, 3, 4, 5, 6, 7] 0 = (Inl AttributeError, 0)
   \<and> forward (snd (set_effects (get_noise example_gaussian) PNone PNone PNone [] example_loaded))
       [1, 2, 3, 4, 5, 6, 7] 0 = (Inr [28], 0)"
proof -
  have loaded: "new_SurrogateModel example_fs ''model.pt'' = Inr example_loaded"
    by (simp add: new_SurrogateModel_def load_base_model_def example_fs_def example_model_def
        example_metadata_def init_voltage_ranges_def broadcast_def get_tensor_from_list_def
        cat1_def unsqueeze1_def example_loaded_def)
  have factory: "get_noise example_gaussian PNone [] = Inr None"
    by (simp add: get_noise_def)
  have raw: "net (model example_loaded) [1, 2, 3, 4, 5, 6, 7] = Inr [28]"
    by (simp add: example_loaded_def example_model_def)
  show ?thesis
    using forward_after_construction [OF loaded, of "[1, 2, 3, 4, 5, 6, 7]" 0 "[28]"
        "get_noise example_gaussian" "[]"] factory raw
    by simp
qed

section \<open>Disabled effects\<close>

text \<open>
  C4. With the three slots assigned, an effect set to \<^verbatim>\<open>None\<close> contributes no stage:
  \<open>forward\<close> is the pipeline of the two remaining stages, and with noise disabled the
  generator state is untouched, so the noise model is not invoked at all. With all three
  disabled \<open>forward\<close> returns the raw model output.
\<close>

theorem disabled_effect_skipped:
  assumes "amplification s = Some a" "noise s = Some n" "output_clipping s = Some c"
  shows "(a = PNone \<longrightarrow>
            forward s x g = and_then (and_then (net (model s) x, g) (spec_noise n)) (spec_clip c))
         \<and> (n = None \<longrightarrow>
            forward s x g = and_then (and_then (net (model s) x, g) (spec_amplify a)) (spec_clip c)
            \<and> snd (forward s x g) = g)
         \<and> (c = PNone \<longrightarrow>
            forward s x g = and_then (and_then (net (model s) x, g) (spec_amplify a)) (spec_noise n))
         \<and> (a = PNone \<and> n = None \<and> c = PNone \<longrightarrow> forward s x g = (net (model s) x, g))"
proof -
  have stages: "forward s x g =
      and_then (and_then (and_then (net (model s) x, g) (spec_amplify a)) (spec_noise n))
        (spec_clip c)"
    using assms by (rule forward_stages)
  have amp: "and_then r (spec_amplify PNone) = r" for r :: "(error + tensor) \<times> 'a"
    by (simp add: and_then_def spec_amplify_def spec_skip_def split: prod.splits sum.splits)
  have nz: "and_then r (spec_noise None) = r" for r :: "(error + tensor) \<times> 'a"
    by (simp add: and_then_def spec_noise_def spec_skip_def split: prod.splits sum.splits)
  have clip: "and_then r (spec_clip PNone) = r" for r :: "(error + tensor) \<times> 'a"
    by (simp add: and_then_def spec_clip_def spec_skip_def split: prod.splits sum.splits)
  have rng: "snd (and_then (and_then (net (model s) x, g) (spec_amplify a)) (spec_clip c)) = g"
    by (simp add: and_then_def spec_amplify_def spec_clip_def spec_skip_def
        split: prod.splits sum.splits)
  show ?thesis
    using rng by (simp add: stages amp nz clip)
qed

theorem disabled_effect_skipped_witness:
  "forward example_noisy [1, 2] 5 = (Inr [8], 6)
   \<and> forward example_disabled [1, 2] 5 = (Inr [3], 5)"
  using disabled_effect_skipped [of example_noisy PNone "Some example_noise" PNone "[1, 2]" 5]
    disabled_effect_skipped [of example_disabled PNone None PNone "[1, 2]" 5]
  by (simp add: example_noisy_def example_disabled_def example_loaded_def example_model_def
      example_noise_def and_then_def spec_amplify_def spec_noise_def spec_clip_def spec_skip_def)

section \<open>The default path of the setters\<close>

text \<open>
  C5. For amplification and for output clipping, setting the slot to \<^verbatim>\<open>"default"\<close>, then to
  any value \<open>v\<close>, then to \<^verbatim>\<open>"default"\<close> again ends in the same state as the first
  \<^verbatim>\<open>"default"\<close> call alone; with the metadata entry present that call succeeds and the
  slot holds the tensor of the metadata value.
\<close>

theorem default_after_explicit:
  "then_call (then_call (set_amplification (PStr ''default'') s) (set_amplification v))
       (set_amplification (PStr ''default''))
     = set_amplification (PStr ''default'') s
   \<and> then_call (then_call (set_output_clipping (PStr ''default'') s) (set_output_clipping v))
       (set_output_clipping (PStr ''default''))
     = set_output_clipping (PStr ''default'') s
   \<and> (info (model s) = Some md \<and> driver_amplification md = Some a \<longrightarrow>
        set_amplification (PStr ''default'') s = (None, s\<lparr>amplification := Some (PTensor a)\<rparr>))
   \<and> (info (model s) = Some md \<and> clipping_value md = Some c \<longrightarrow>
        set_output_clipping (PStr ''default'') s = (None, s\<lparr>output_clipping := Some (PTensor c)\<rparr>))"
  by (simp add: then_call_def set_amplification_def set_output_clipping_def
      get_tensor_from_list_def split: option.splits)

theorem default_after_explicit_witness:
  "amplification (snd (then_call (then_call (set_amplification (PStr ''default'') example_loaded)
       (set_amplification (PNum 4))) (set_amplification (PStr ''default'')))) = Some (PTensor [2])
   \<and> output_clipping (snd (then_call (then_call (set_output_clipping (PStr ''default'') example_loaded)
       (set_output_clipping (PTensor [10, 20]))) (set_output_clipping (PStr ''default'')))) = Some (PTensor [1, 2])"
  using default_after_explicit [of example_loaded "PNum 4" example_metadata "[2]" "[1, 2]"]
    default_after_explicit [of example_loaded "PTensor [10, 20]" example_metadata "[2]" "[1, 2]"]
  by (simp add: example_loaded_def example_model_def example_metadata_def then_call_def
      set_amplification_def set_output_clipping_def get_tensor_from_list_def)

section \<open>A failing configuration call\<close>

lemma set_amplification_frame:
  "set_amplification v s = (r, s') \<Longrightarrow>
   model s' = model s \<and> voltage_ranges s' = voltage_ranges s
   \<and> output_clipping s' = output_clipping s \<and> noise s' = noise s"
  by (auto simp add: set_amplification_def split: if_splits option.splits)

lemma set_output_clipping_frame:
  "set_output_clipping v s = (r, s') \<Longrightarrow>
   model s' = model s \<and> voltage_ranges s' = voltage_ranges s
   \<and> amplification s' = amplification s \<and> noise s' = noise s"
  by (auto simp add: set_output_clipping_def split: if_splits option.splits)

text \<open>
  C7, as stated, fails: on the configured example pipeline (amplification \<open>2\<close>, clipping
  \<open>[1, 2]\<close>), \<open>set_effects\<close> with amplification \<open>3\<close> and the unknown noise tag
  \<^verbatim>\<open>"uniform"\<close> raises the configuration error, and the object it leaves has amplification
  \<open>3\<close> and clipping switched off.
\<close>

theorem set_effects_partial_update_counterexample:
  "amplification example_configured = Some (PNum 2)
   \<and> output_clipping example_configured = Some (PTensor [1, 2])
   \<and> set_effects (get_noise example_gaussian) (PNum 3) PNone (PStr ''uniform'') []
         example_configured
       = (Some ConfigurationError,
          example_configured\<lparr>amplification := Some (PNum 3), output_clipping := Some PNone\<rparr>)
   \<and> snd (set_effects (get_noise example_gaussian) (PNum 3) PNone (PStr ''uniform'') []
         example_configured) \<noteq> example_configured"
  by (simp add: example_configured_def example_loaded_def set_effects_def
      set_amplification_def set_output_clipping_def get_noise_def)

text \<open>
  C7, amended. A call of \<open>set_amplification\<close> or \<open>set_output_clipping\<close> that raises leaves
  the object as it was. A call of \<open>set_effects\<close> that raises in the noise factory leaves
  the noise slot as it was, but amplification and output clipping have already been
  replaced by that call: the object is the one the two setters produced.
\<close>

theorem failed_setter_state:
  "(fst (set_amplification v s) = Some e \<longrightarrow> snd (set_amplification v s) = s)
   \<and> (fst (set_output_clipping v s) = Some e \<longrightarrow> snd (set_output_clipping v s) = s)
   \<and> (set_amplification a s = (None, s1) \<and> set_output_clipping c s1 = (None, s2)
        \<and> noise_factory noise_arg kwargs = Inl e \<longrightarrow>
        set_effects noise_factory a c noise_arg kwargs s = (Some e, s2)
        \<and> noise s2 = noise s
        \<and> (a \<noteq> PStr ''default'' \<longrightarrow> amplification s2 = Some a)
        \<and> (c \<noteq> PStr ''default'' \<longrightarrow> output_clipping s2 = Some c))"
proof -
  have one: "fst (set_amplification v s) = Some e \<longrightarrow> snd (set_amplification v s) = s"
    by (simp add: set_amplification_def split: option.splits)
  have two: "fst (set_output_clipping v s) = Some e \<longrightarrow> snd (set_output_clipping v s) = s"
    by (simp add: set_output_clipping_def split: option.splits)
  have three: "set_effects noise_factory a c noise_arg kwargs s = (Some e, s2)
        \<and> noise s2 = noise s
        \<and> (a \<noteq> PStr ''default'' \<longrightarrow> amplification s2 = Some a)
        \<and> (c \<noteq> PStr ''default'' \<longrightarrow> output_clipping s2 = Some c)"
    if h: "set_amplification a s = (None, s1)" "set_output_clipping c s1 = (None, s2)"
      "noise_factory noise_arg kwargs = Inl e"
  proof -
    have "set_effects noise_factory a c noise_arg kwargs s = (Some e, s2)"
      using h by (simp add: set_effects_def)
    moreover have "noise s2 = noise s"
      using set_amplification_frame [OF h(1)] set_output_clipping_frame [OF h(2)] by simp
    moreover have "amplification s2 = Some a" if "a \<noteq> PStr ''default''"
      using h(1) that set_output_clipping_frame [OF h(2)]
      by (auto simp add: set_amplification_def)
    moreover have "output_clipping s2 = Some c" if "c \<noteq> PStr ''default''"
      using h(2) that by (auto simp add: set_output_clipping_def)
    ultimately show ?thesis by simp
  qed
  show ?thesis
    using one two three by blast
qed

theorem failed_setter_state_witness:
  "set_effects (get_noise example_gaussian) (PNum 3) PNone (PStr ''uniform'') []
         example_configured
       = (Some ConfigurationError,
          example_configured\<lparr>amplification := Some (PNum 3), output_clipping := Some PNone\<rparr>)
   \<and> noise (example_configured\<lparr>amplification := Some (PNum 3), output_clipping := Some PNone\<rparr>)
       = noise example_configured
   \<and> snd (set_amplification (PStr ''default'') example_bare) = example_bare"
proof -
  have a: "set_amplification (PNum 3) example_configured
             = (None, example_configured\<lparr>amplification := Some (PNum 3)\<rparr>)"
    by (simp add: set_amplification_def)
  have c: "set_output_clipping PNone (example_configured\<lparr>amplification := Some (PNum 3)\<rparr>)
             = (None, example_configured\<lparr>amplification := Some (PNum 3), output_clipping := Some PNone\<rparr>)"
    by (simp add: set_output_clipping_def)
  have n: "get_noise example_gaussian (PStr ''uniform'') [] = Inl ConfigurationError"
    by (simp add: get_noise_def)
  have f: "fst (set_amplification (PStr ''default'') example_bare) = Some AttributeError"
    by (simp add: set_amplification_def example_bare_def)
  show ?thesis
    using failed_setter_state [where v = "PStr ''default''" and s = example_bare
        and e = AttributeError]
      failed_setter_state [where s = example_configured and e = ConfigurationError
        and a = "PNum 3" and c = PNone
        and ?s1.0 = "example_configured\<lparr>amplification := Some (PNum 3)\<rparr>"
        and ?s2.0 = "example_configured\<lparr>amplification := Some (PNum 3),
                       output_clipping := Some PNone\<rparr>"
        and noise_factory = "get_noise example_gaussian" and noise_arg = "PStr ''uniform''"
        and kwargs = "[]"]
      a c n f
    by simp
qed

section \<open>Reset and close\<close>

text \<open>
  C8. \<open>reset\<close> and \<open>close\<close> leave the object unchanged and do not raise; \<open>reset\<close> emits
  one warning, \<open>close\<close> emits none.
\<close>

theorem close_emits_no_warning:
  "close s = (s, []) \<and> reset s = (s, [ResetNotImplemented])"
  by (simp add: close_def reset_def)

section \<open>Electrode count\<close>

text \<open>
  C9. When the model carries metadata with an offset array of length \<open>D_in\<close>,
  \<open>get_electrode_no\<close> returns \<open>D_in\<close> without a warning; when the model has no metadata
  it returns \<^verbatim>\<open>None\<close> with one warning. Neither case raises.
\<close>

theorem get_electrode_no_result:
  "(info (model s) = Some md \<and> offset md = Some off \<and> length off = D_in \<longrightarrow>
      get_electrode_no s = (Inr (Some D_in), []))
   \<and> (info (model s) = None \<longrightarrow> get_electrode_no s = (Inr None, [ElectrodeNoUnavailable]))"
  by (simp add: get_electrode_no_def)

theorem get_electrode_no_result_witness:
  "get_electrode_no example_loaded = (Inr (Some 7), [])
   \<and> get_electrode_no example_bare = (Inr None, [ElectrodeNoUnavailable])"
  using get_electrode_no_result [of example_loaded example_metadata "[0, 1, 2, 3, 4, 5, 6]" 7]
    get_electrode_no_result [of example_bare]
  by (simp add: example_loaded_def example_model_def example_metadata_def example_bare_def)

section \<open>set_effects replaces every slot\<close>






section \<open>Configuration from dictionaries: resolution\<close>

lemma then_call_returns:
  "then_call r k = (None, s') \<Longrightarrow> \<exists>s1. r = (None, s1) \<and> k s1 = (None, s')"
  by (cases r) (auto simp add: then_call_def split: option.splits)

lemma amplification_from_dict_frame:
  "amplification_from_dict info_dict configs s = (r, s') \<Longrightarrow>
   model s' = model s \<and> voltage_ranges s' = voltage_ranges s
   \<and> output_clipping s' = output_clipping s \<and> noise s' = noise s"
  by (auto simp add: amplification_from_dict_def split: option.splits
      dest: set_amplification_frame)

lemma output_clipping_from_dict_frame:
  "output_clipping_from_dict info_dict configs s = (r, s') \<Longrightarrow>
   model s' = model s \<and> voltage_ranges s' = voltage_ranges s
   \<and> amplification s' = amplification s \<and> noise s' = noise s"
  by (auto simp add: output_clipping_from_dict_def split: option.splits
      dest: set_output_clipping_frame)

lemma voltage_ranges_from_dict_frame:
  "voltage_ranges_from_dict info_dict configs s = (r, s') \<Longrightarrow>
   model s' = model s \<and> amplification s' = amplification s
   \<and> output_clipping s' = output_clipping s \<and> noise s' = noise s"
  by (auto simp add: voltage_ranges_from_dict_def set_voltage_ranges_def
      split: option.splits if_splits sum.splits dest: init_voltage_ranges_slots)

lemma noise_from_dict_frame:
  "noise_from_dict noise_factory info_dict configs s = (r, s') \<Longrightarrow>
   model s' = model s \<and> amplification s' = amplification s
   \<and> output_clipping s' = output_clipping s \<and> voltage_ranges s' = voltage_ranges s"
  by (auto simp add: noise_from_dict_def set_noise_def split: option.splits sum.splits)

lemma set_effects_from_dict_steps:
  assumes "set_effects_from_dict noise_factory info_dict configs s = (None, s')"
  shows "\<exists>s1 s2 s3. amplification_from_dict info_dict configs s = (None, s1)
           \<and> output_clipping_from_dict info_dict configs s1 = (None, s2)
           \<and> voltage_ranges_from_dict info_dict configs s2 = (None, s3)
           \<and> noise_from_dict noise_factory info_dict configs s3 = (None, s')"
proof -
  from assms obtain s3 where
    r3: "then_call
          (then_call (amplification_from_dict info_dict configs s)
             (output_clipping_from_dict info_dict configs))
          (voltage_ranges_from_dict info_dict configs) = (None, s3)"
    and n: "noise_from_dict noise_factory info_dict configs s3 = (None, s')"
    unfolding set_effects_from_dict_def by (blast dest: then_call_returns)
  from r3 obtain s2 where
    r2: "then_call (amplification_from_dict info_dict configs s)
             (output_clipping_from_dict info_dict configs) = (None, s2)"
    and v: "voltage_ranges_from_dict info_dict configs s2 = (None, s3)"
    by (blast dest: then_call_returns)
  from r2 obtain s1 where
    a: "amplification_from_dict info_dict configs s = (None, s1)"
    and c: "output_clipping_from_dict info_dict configs s1 = (None, s2)"
    by (blast dest: then_call_returns)
  from a c v n show ?thesis by blast
qed

text \<open>
  C6. With the configuration \<^verbatim>\<open>{"amplification": 2, "output_clipping": [3,4],
  "voltage_ranges": "default", "noise": None}\<close> and an info dictionary whose
  \<^verbatim>\<open>activation_electrodes.voltage_ranges\<close> is \<open>[1, 2]\<close>, \<open>set_effects_from_dict\<close> leaves
  amplification \<open>2\<close>, output clipping \<open>[3, 4]\<close>, voltage ranges \<open>[1, 2]\<close> and no noise.
  For each recognised key absent from the configuration (amplification, output clipping,
  voltage ranges, noise), the slot takes the value of the info dictionary if there is one,
  for noise the model which that value selects, and keeps its prior value otherwise. A
  noise value given in the configuration installs the model it selects.
\<close>

theorem set_effects_from_dict_resolution:
  "(info_lookup info_dict ''activation_electrodes'' ''voltage_ranges'' = Some (PTensor [1, 2])
      \<and> noise_factory PNone [] = Inr None \<longrightarrow>
      set_effects_from_dict noise_factory info_dict
          [(''amplification'', PNum 2), (''output_clipping'', PTensor [3, 4]),
           (''voltage_ranges'', PStr ''default''), (''noise'', PNone)] s
        = (None, s\<lparr>amplification := Some (PNum 2), output_clipping := Some (PTensor [3, 4]),
                   voltage_ranges := Some (Configured (PTensor [1, 2])), noise := Some None\<rparr>))
   \<and> (set_effects_from_dict noise_factory info_dict configs s = (None, s') \<longrightarrow>
        (map_of configs ''amplification'' = None \<longrightarrow>
           amplification s' =
             (case info_lookup info_dict ''output_electrodes'' ''amplification'' of
                Some w \<Rightarrow> Some w | None \<Rightarrow> amplification s))
        \<and> (map_of configs ''output_clipping'' = None \<longrightarrow>
           output_clipping s' =
             (case info_lookup info_dict ''output_electrodes'' ''output_clipping'' of
                Some w \<Rightarrow> Some w | None \<Rightarrow> output_clipping s))
        \<and> (map_of configs ''voltage_ranges'' = None \<longrightarrow>
           voltage_ranges s' =
             (case info_lookup info_dict ''activation_electrodes'' ''voltage_ranges'' of
                Some w \<Rightarrow> Some (Configured w) | None \<Rightarrow> voltage_ranges s))
        \<and> (map_of configs ''noise'' = None \<longrightarrow>
           (case dict_get info_dict ''noise'' of
              Some w \<Rightarrow> (\<exists>n. select_noise noise_factory w = Inr n \<and> noise s' = Some n)
            | None \<Rightarrow> noise s' = noise s))
        \<and> (map_of configs ''noise'' = Some v \<longrightarrow>
           (\<exists>n. select_noise noise_factory v = Inr n \<and> noise s' = Some n)))"
proof -
  have example: "set_effects_from_dict noise_factory info_dict
          [(''amplification'', PNum 2), (''output_clipping'', PTensor [3, 4]),
           (''voltage_ranges'', PStr ''default''), (''noise'', PNone)] s
        = (None, s\<lparr>amplification := Some (PNum 2), output_clipping := Some (PTensor [3, 4]),
                   voltage_ranges := Some (Configured (PTensor [1, 2])), noise := Some None\<rparr>)"
    if "info_lookup info_dict ''activation_electrodes'' ''voltage_ranges'' = Some (PTensor [1, 2])"
      "noise_factory PNone [] = Inr None"
    using that
    by (simp add: set_effects_from_dict_def then_call_def amplification_from_dict_def
        output_clipping_from_dict_def voltage_ranges_from_dict_def noise_from_dict_def
        set_amplification_def set_output_clipping_def set_voltage_ranges_def set_noise_def
        select_noise_def)
  have fallback: "(map_of configs ''amplification'' = None \<longrightarrow>
           amplification s' =
             (case info_lookup info_dict ''output_electrodes'' ''amplification'' of
                Some w \<Rightarrow> Some w | None \<Rightarrow> amplification s))
        \<and> (map_of configs ''output_clipping'' = None \<longrightarrow>
           output_clipping s' =
             (case info_lookup info_dict ''output_electrodes'' ''output_clipping'' of
                Some w \<Rightarrow> Some w | None \<Rightarrow> output_clipping s))
        \<and> (map_of configs ''voltage_ranges'' = None \<longrightarrow>
           voltage_ranges s' =
             (case info_lookup info_dict ''activation_electrodes'' ''voltage_ranges'' of
                Some w \<Rightarrow> Some (Configured w) | None \<Rightarrow> voltage_ranges s))
        \<and> (map_of configs ''noise'' = None \<longrightarrow>
           (case dict_get info_dict ''noise'' of
              Some w \<Rightarrow> (\<exists>n. select_noise noise_factory w = Inr n \<and> noise s' = Some n)
            | None \<Rightarrow> noise s' = noise s))
        \<and> (map_of configs ''noise'' = Some v \<longrightarrow>
           (\<exists>n. select_noise noise_factory v = Inr n \<and> noise s' = Some n))"
    if "set_effects_from_dict noise_factory info_dict configs s = (None, s')"
  proof -
    from set_effects_from_dict_steps [OF that] obtain s1 s2 s3 where
      a: "amplification_from_dict info_dict configs s = (None, s1)"
      and c: "output_clipping_from_dict info_dict configs s1 = (None, s2)"
      and v: "voltage_ranges_from_dict info_dict configs s2 = (None, s3)"
      and n: "noise_from_dict noise_factory info_dict configs s3 = (None, s')"
      by blast
    note fa = amplification_from_dict_frame [OF a]
    note fc = output_clipping_from_dict_frame [OF c]
    note fv = voltage_ranges_from_dict_frame [OF v]
    note fn = noise_from_dict_frame [OF n]
    have amp: "amplification s' =
             (case info_lookup info_dict ''output_electrodes'' ''amplification'' of
                Some w \<Rightarrow> Some w | None \<Rightarrow> amplification s)"
      if "map_of configs ''amplification'' = None"
    proof -
      have "amplification s1 =
             (case info_lookup info_dict ''output_electrodes'' ''amplification'' of
                Some w \<Rightarrow> Some w | None \<Rightarrow> amplification s)"
        using a that by (auto simp add: amplification_from_dict_def split: option.splits)
      then show ?thesis using fc fv fn by (simp split: option.splits)
    qed
    have clip: "output_clipping s' =
             (case info_lookup info_dict ''output_electrodes'' ''output_clipping'' of
                Some w \<Rightarrow> Some w | None \<Rightarrow> output_clipping s)"
      if "map_of configs ''output_clipping'' = None"
    proof -
      have "output_clipping s2 =
             (case info_lookup info_dict ''output_electrodes'' ''output_clipping'' of
                Some w \<Rightarrow> Some w | None \<Rightarrow> output_clipping s1)"
        using c that by (auto simp add: output_clipping_from_dict_def split: option.splits)
      then show ?thesis using fa fv fn by (simp split: option.splits)
    qed
    have vr: "voltage_ranges s' =
             (case info_lookup info_dict ''activation_electrodes'' ''voltage_ranges'' of
                Some w \<Rightarrow> Some (Configured w) | None \<Rightarrow> voltage_ranges s)"
      if "map_of configs ''voltage_ranges'' = None"
    proof -
      have "voltage_ranges s3 =
             (case info_lookup info_dict ''activation_electrodes'' ''voltage_ranges'' of
                Some w \<Rightarrow> Some (Configured w) | None \<Rightarrow> voltage_ranges s2)"
        using v that by (auto simp add: voltage_ranges_from_dict_def split: option.splits)
      then show ?thesis using fa fc fn by (simp split: option.splits)
    qed
    have installed: "\<exists>n. select_noise noise_factory w = Inr n \<and> noise s' = Some n"
      if "set_noise noise_factory w s3 = (None, s')" for w
      using that by (cases "select_noise noise_factory w") (auto simp add: set_noise_def)
    have nz: "(case dict_get info_dict ''noise'' of
              Some w \<Rightarrow> (\<exists>n. select_noise noise_factory w = Inr n \<and> noise s' = Some n)
            | None \<Rightarrow> noise s' = noise s)"
      if absent: "map_of configs ''noise'' = None"
    proof (cases "dict_get info_dict ''noise''")
      case None
      then have "noise s' = noise s3"
        using n absent by (simp add: noise_from_dict_def)
      then show ?thesis using None fa fc fv by simp
    next
      case (Some w)
      then have "set_noise noise_factory w s3 = (None, s')"
        using n absent by (simp add: noise_from_dict_def)
      from installed [OF this] show ?thesis using Some by simp
    qed
    have given: "\<exists>n. select_noise noise_factory v = Inr n \<and> noise s' = Some n"
      if "map_of configs ''noise'' = Some v"
    proof -
      have "set_noise noise_factory v s3 = (None, s')"
        using n that by (simp add: noise_from_dict_def)
      then show ?thesis by (rule installed)
    qed
    show ?thesis
      using amp clip vr nz given by blast
  qed
  show ?thesis
    using example fallback by blast
qed

theorem set_effects_from_dict_resolution_witness:
  "set_effects_from_dict (get_noise example_gaussian) example_info_dict
       [(''amplification'', PNum 2), (''output_clipping'', PTensor [3, 4]),
        (''voltage_ranges'', PStr ''default''), (''noise'', PNone)] example_loaded
     = (None, example_loaded\<lparr>amplification := Some (PNum 2),
          output_clipping := Some (PTensor [3, 4]),
          voltage_ranges := Some (Configured (PTensor [1, 2])), noise := Some None\<rparr>)
   \<and> set_effects_from_dict (get_noise example_gaussian) example_info_dict [] example_disabled
     = (None, example_disabled\<lparr>amplification := Some (PNum 2),
          output_clipping := Some (PTensor [1, 2]),
          voltage_ranges := Some (Configured (PTensor [1, 2]))\<rparr>)
   \<and> noise (example_disabled\<lparr>amplification := Some (PNum 2),
          output_clipping := Some (PTensor [1, 2]),
          voltage_ranges := Some (Configured (PTensor [1, 2]))\<rparr>) = noise example_disabled
   \<and> set_effects_from_dict (get_noise example_gaussian) example_info_noise [] example_disabled
     = (None, example_disabled\<lparr>noise := Some (Some (example_gaussian 1))\<rparr>)
   \<and> select_noise (get_noise example_gaussian)
        (PDict [(''type'', PStr ''gaussian''), (''variance'', PNum 1)])
     = Inr (Some (example_gaussian 1))"
proof -
  have look: "info_lookup example_info_dict ''activation_electrodes'' ''voltage_ranges''
      = Some (PTensor [1, 2])"
    by (simp add: info_lookup_def example_info_dict_def)
  have factory: "get_noise example_gaussian PNone [] = Inr None"
    by (simp add: get_noise_def)
  have run: "set_effects_from_dict (get_noise example_gaussian) example_info_dict [] example_disabled
     = (None, example_disabled\<lparr>amplification := Some (PNum 2),
          output_clipping := Some (PTensor [1, 2]),
          voltage_ranges := Some (Configured (PTensor [1, 2]))\<rparr>)"
    by (simp add: set_effects_from_dict_def then_call_def amplification_from_dict_def
        output_clipping_from_dict_def voltage_ranges_from_dict_def noise_from_dict_def
        info_lookup_def example_info_dict_def)
  have selected: "select_noise (get_noise example_gaussian)
        (PDict [(''type'', PStr ''gaussian''), (''variance'', PNum 1)])
     = Inr (Some (example_gaussian 1))"
    by (simp add: select_noise_def get_noise_def)
  have noisy: "set_effects_from_dict (get_noise example_gaussian) example_info_noise []
        example_disabled
     = (None, example_disabled\<lparr>noise := Some (Some (example_gaussian 1))\<rparr>)"
    by (simp add: set_effects_from_dict_def then_call_def amplification_from_dict_def
        output_clipping_from_dict_def voltage_ranges_from_dict_def noise_from_dict_def
        info_lookup_def example_info_noise_def set_noise_def selected)
  show ?thesis
    using set_effects_from_dict_resolution [where noise_factory = "get_noise example_gaussian"
        and info_dict = example_info_dict and s = example_loaded]
      set_effects_from_dict_resolution [where noise_factory = "get_noise example_gaussian"
        and info_dict = example_info_dict and s = example_disabled and configs = "[]"
        and s' = "example_disabled\<lparr>amplification := Some (PNum 2),
          output_clipping := Some (PTensor [1, 2]),
          voltage_ranges := Some (Configured (PTensor [1, 2]))\<rparr>"]
      set_effects_from_dict_resolution [where noise_factory = "get_noise example_gaussian"
        and info_dict = example_info_noise and s = example_disabled and configs = "[]"
        and s' = "example_disabled\<lparr>noise := Some (Some (example_gaussian 1))\<rparr>"]
      look factory run selected noisy
    by simp
qed

end
